theory Spec2Isabelle
  imports Main "HOL-Library.Sublist" "HOL-Library.Word"
begin

section \<open>JavaScript strings\<close>

text \<open>
  A JavaScript string is a sequence of UTF-16 code units: \<open>s.length\<close> counts code units
  and \<open>s.includes(t)\<close> compares code units. A string is therefore a list of 16-bit words,
  and \<open>length\<close> is the program's \<open>.length\<close>. The literals of the source are all ASCII;
  \<open>str\<close> turns an ASCII literal into its code units.
\<close>

type_synonym code_unit = "16 word"
type_synonym jsstring = "code_unit list"

definition str :: "string \<Rightarrow> jsstring" where
  "str cs = map (\<lambda>c. of_nat (of_char c)) cs"

text \<open>
  \<open>String.prototype.includes\<close>: the search string occurs at some position of the
  string, as a contiguous run of code units. The empty search string occurs everywhere.
\<close>

fun str_includes :: "jsstring \<Rightarrow> jsstring \<Rightarrow> bool" where
  "str_includes [] sub = (sub = [])"
| "str_includes (c # cs) sub = (prefix sub (c # cs) \<or> str_includes cs sub)"

text \<open>
  \<open>a || b\<close> on an operand that is a string or \<open>undefined\<close>: \<open>undefined\<close> and the
  empty string are falsy, every other string is truthy.
\<close>

fun or_else :: "jsstring option \<Rightarrow> jsstring \<Rightarrow> jsstring" where
  "or_else None d = d"
| "or_else (Some m) d = (if m = [] then d else m)"

section \<open>The component's state and the frames of the channel\<close>

text \<open>
  The four \<open>useState\<close> cells of \<open>EventDiscoveryForm\<close> that the socket handlers write,
  with their initial values.
\<close>

record UIState =
  isConnected :: bool
  isLoading :: bool
  result :: jsstring
  error :: jsstring

definition initial_UIState :: UIState where
  "initial_UIState =
     \<lparr>isConnected = False, isLoading = False, result = str '''', error = str ''''\<rparr>"

text \<open>
  \<open>data = JSON.parse(event.data)\<close>: the parsed frame, an object with a \<open>type\<close> and the
  optional fields \<open>content\<close> and \<open>message\<close> (strings when present, as the backend sends
  them). A field that the frame does not have reads as \<open>undefined\<close>, here \<open>None\<close>.
\<close>

record frame =
  type :: jsstring
  content :: "jsstring option"
  message :: "jsstring option"

definition start_frame :: frame where
  "start_frame = \<lparr>type = str ''start'', content = None, message = None\<rparr>"

definition stream_frame :: "jsstring \<Rightarrow> frame" where
  "stream_frame c = \<lparr>type = str ''stream'', content = Some c, message = None\<rparr>"

definition complete_frame :: frame where
  "complete_frame = \<lparr>type = str ''complete'', content = None, message = None\<rparr>"

definition error_frame :: "jsstring option \<Rightarrow> frame" where
  "error_frame m = \<lparr>type = str ''error'', content = None, message = m\<rparr>"

section \<open>The message handler\<close>

text \<open>The two tests of the \<open>stream\<close> branch, on the raw text of the fragment.\<close>

definition isToolCallContent :: "jsstring \<Rightarrow> bool" where
  "isToolCallContent c =
     (str_includes c (str ''Tool Calls:'') \<or>
      str_includes c (str ''call_'') \<or>
      str_includes c (str ''==='') \<or>
      str_includes c (str ''Agent'') \<or>
      str_includes c (str ''Running''))"

definition isFinalResponse :: "jsstring \<Rightarrow> bool" where
  "isFinalResponse c =
     (str_includes c (str ''**Event Name**:'') \<or>
      str_includes c (str ''## '') \<or>
      (length c > 100 \<and> \<not> isToolCallContent c))"

text \<open>
  \<open>wsRef.current.onmessage\<close>. Reading \<open>data.content.includes\<close> on a \<open>stream\<close> frame
  without \<open>content\<close> throws a TypeError before any state is written; a frame of any other
  type falls through the chain and writes nothing.
\<close>

datatype js_error = TypeError

definition onmessage :: "UIState \<Rightarrow> frame \<Rightarrow> js_error + UIState" where
  "onmessage s data =
     (if type data = str ''start'' then
        Inr (s\<lparr>isLoading := True, result := str ''''\<rparr>)
      else if type data = str ''stream'' then
        (case content data of
           None \<Rightarrow> Inl TypeError
         | Some c \<Rightarrow> if isFinalResponse c then Inr (s\<lparr>result := c\<rparr>) else Inr s)
      else if type data = str ''complete'' then
        Inr (s\<lparr>isLoading := False\<rparr>)
      else if type data = str ''error'' then
        Inr (s\<lparr>isLoading := False,
               error := or_else (message data) (str ''An error occurred'')\<rparr>)
      else Inr s)"

text \<open>
  The frames of a channel arrive one at a time, each in a handler call of its own: a call
  that throws leaves the state as it was, and the next frame is handled all the same.
\<close>

definition deliver :: "UIState \<Rightarrow> frame \<Rightarrow> UIState" where
  "deliver s data = (case onmessage s data of Inl e \<Rightarrow> s | Inr s' \<Rightarrow> s')"

definition deliver_all :: "UIState \<Rightarrow> frame list \<Rightarrow> UIState" where
  "deliver_all s frames = foldl deliver s frames"

section \<open>The form and the query composer\<close>

text \<open>
  A \<open>Date\<close> as the form holds it: the calendar day that the date picker returned, in
  local time, which is what the formatting reads.
\<close>

datatype Month =
  January | February | March | April | May | June
  | July | August | September | October | November | December

record Date =
  year :: nat
  month :: Month
  day :: nat

record DateRange =
  "from" :: "Date option"
  to :: "Date option"

record EventFormData =
  location :: jsstring
  dateRange :: "DateRange option"
  vertical :: jsstring
  companies :: jsstring
  additionalInfo :: jsstring

text \<open>
  Modelled from the spec: \<open>format\<close> is imported from the library date-fns, whose code is
  not in the repository. The spec gives its result for the pattern \<open>MMMM d, yyyy\<close> as
  \<open>Month D, YYYY\<close>: the full English month name, the day of the month without padding,
  and the year (padded with zeros to four digits, as date-fns documents \<open>yyyy\<close>).
\<close>

fun MMMM :: "Month \<Rightarrow> string" where
  "MMMM January = ''January''"
| "MMMM February = ''February''"
| "MMMM March = ''March''"
| "MMMM April = ''April''"
| "MMMM May = ''May''"
| "MMMM June = ''June''"
| "MMMM July = ''July''"
| "MMMM August = ''August''"
| "MMMM September = ''September''"
| "MMMM October = ''October''"
| "MMMM November = ''November''"
| "MMMM December = ''December''"

text \<open>Modelled from the spec: the decimal digits of a number, most significant first.\<close>

function decimal :: "nat \<Rightarrow> string" where
  "decimal n =
     (if n < 10 then [''0123456789'' ! n]
      else decimal (n div 10) @ [''0123456789'' ! (n mod 10)])"
  by pat_completeness auto
termination
  by (relation "measure id") auto

declare decimal.simps [simp del]

text \<open>Modelled from the spec: the year of \<open>YYYY\<close>, at least four digits.\<close>

definition yyyy :: "nat \<Rightarrow> string" where
  "yyyy y = replicate (4 - length (decimal y)) CHR ''0'' @ decimal y"

text \<open>Modelled from the spec: \<open>format(date, 'MMMM d, yyyy')\<close>, rendering \<open>Month D, YYYY\<close>.\<close>

definition format_MMMM_d_yyyy :: "Date \<Rightarrow> jsstring" where
  "format_MMMM_d_yyyy date =
     str (MMMM (month date) @ '' '' @ decimal (day date) @ '', '' @ yyyy (year date))"

text \<open>
  The optional chains \<open>formData.dateRange?.from\<close> and \<open>formData.dateRange?.to\<close>. A
  \<open>Date\<close> object is truthy, so each is truthy exactly when the date is there.
\<close>

definition dateRange_from :: "EventFormData \<Rightarrow> Date option" where
  "dateRange_from formData = Option.bind (dateRange formData) from"

definition dateRange_to :: "EventFormData \<Rightarrow> Date option" where
  "dateRange_to formData = Option.bind (dateRange formData) to"

text \<open>The constant \<open>dateRangeText\<close> of \<open>handleSubmit\<close>: a conditional inside a conditional.\<close>

definition dateRangeText :: "EventFormData \<Rightarrow> jsstring" where
  "dateRangeText formData =
     (case (dateRange_from formData, dateRange_to formData) of
        (Some f, Some t) \<Rightarrow>
          str ''from '' @ format_MMMM_d_yyyy f @ str '' to '' @ format_MMMM_d_yyyy t
      | (Some f, None) \<Rightarrow> str ''starting from '' @ format_MMMM_d_yyyy f
      | (None, _) \<Rightarrow> str ''upcoming'')"

text \<open>
  \<open>handleSubmit\<close>, given the state and the form that the handler closes over. The value
  is the message handed to \<open>wsRef.current?.send\<close> (the object that \<open>JSON.stringify\<close>
  encodes), or \<open>None\<close> when the handler returns at its guard and sends nothing. The socket
  reference is set when the component mounts, before any submission, and
  \<open>e.preventDefault()\<close> touches neither the state nor the channel. A non-empty string is
  truthy, the empty string is falsy.
\<close>

record QueryRequest =
  query :: jsstring

definition handleSubmit :: "UIState \<Rightarrow> EventFormData \<Rightarrow> QueryRequest option" where
  "handleSubmit s formData =
     (if \<not> isConnected s \<or> isLoading s then None
      else Some \<lparr>query =
        str ''Find '' @ vertical formData @ str '' events in '' @ location formData @
        str '' '' @ dateRangeText formData @ str ''.'' @
        (if companies formData \<noteq> []
         then str '' Focus on events where these companies might be involved: '' @
              companies formData @ str ''.''
         else str '''') @
        (if additionalInfo formData \<noteq> []
         then str '' Additional requirements: '' @ additionalInfo formData
         else str '''')\<rparr>)"

section \<open>Sample inputs\<close>

text \<open>A fragment of 115 code units without any noise marker.\<close>

definition long_clean_fragment :: jsstring where
  "long_clean_fragment =
     str (''Berlin Fintech Week 2025 takes place from March 1 to March 5 and brings '' @
          ''together founders, investors and engineers.'')"

text \<open>
  Two fragments of 50 and of 150 code units, the first opening with \<open>Tool Calls: \<close> and the
  second with \<open>## Results\<close> and a line break.
\<close>

definition tool_call_fragment :: jsstring where
  "tool_call_fragment = str ''Tool Calls: '' @ replicate 38 (of_nat (of_char CHR ''x''))"

definition results_fragment :: jsstring where
  "results_fragment = str ''## Results\<newline>'' @ replicate 139 (of_nat (of_char CHR ''x''))"

text \<open>A channel that is open and idle: the state after \<open>onopen\<close>.\<close>

definition connected_idle :: UIState where
  "connected_idle = initial_UIState\<lparr>isConnected := True\<rparr>"

definition berlin_form :: EventFormData where
  "berlin_form =
     \<lparr>location = str ''Berlin'',
      dateRange = Some \<lparr>from = Some \<lparr>year = 2025, month = March, day = 1\<rparr>,
                        to = Some \<lparr>year = 2025, month = March, day = 5\<rparr>\<rparr>,
      vertical = str ''Fintech'',
      companies = str ''Stripe'',
      additionalInfo = str ''CFP open''\<rparr>"

definition june_form :: EventFormData where
  "june_form =
     \<lparr>location = str ''Lisbon'',
      dateRange = Some \<lparr>from = Some \<lparr>year = 2025, month = June, day = 10\<rparr>, to = None\<rparr>,
      vertical = str ''EdTech'',
      companies = str '''',
      additionalInfo = str ''''\<rparr>"

text \<open>A response cycle under way, with an accepted fragment on display.\<close>

definition loading_with_result :: UIState where
  "loading_with_result =
     \<lparr>isConnected = True, isLoading = True, result = str ''## Results'', error = str ''''\<rparr>"

section \<open>Properties of the string operations\<close>

lemma str_includes_iff_sublist: "str_includes s sub \<longleftrightarrow> sublist sub s"
  by (induction s) (auto simp: sublist_Cons_right)

lemma str_Nil: "str [] = []"
  by (simp add: str_def)

lemma str_append: "str (a @ b) = str a @ str b"
  by (simp add: str_def)

lemma length_str: "length (str cs) = length cs"
  by (simp add: str_def)

lemma frame_types_distinct:
  "str ''stream'' \<noteq> str ''start''"
  "str ''complete'' \<noteq> str ''start''" "str ''complete'' \<noteq> str ''stream''"
  "str ''error'' \<noteq> str ''start''" "str ''error'' \<noteq> str ''stream''"
  "str ''error'' \<noteq> str ''complete''"
  by (simp_all add: str_def)

lemma onmessage_start: "onmessage s start_frame = Inr (s\<lparr>isLoading := True, result := []\<rparr>)"
  by (simp add: onmessage_def start_frame_def str_Nil)

lemma onmessage_stream:
  "onmessage s (stream_frame c) = Inr (if isFinalResponse c then s\<lparr>result := c\<rparr> else s)"
  by (simp add: onmessage_def stream_frame_def frame_types_distinct)

lemma onmessage_complete: "onmessage s complete_frame = Inr (s\<lparr>isLoading := False\<rparr>)"
  by (simp add: onmessage_def complete_frame_def frame_types_distinct)

lemma onmessage_error:
  "onmessage s (error_frame m) =
     Inr (s\<lparr>isLoading := False, error := or_else m (str ''An error occurred'')\<rparr>)"
  by (simp add: onmessage_def error_frame_def frame_types_distinct)

lemma or_else_nonempty: "d \<noteq> [] \<Longrightarrow> or_else m d \<noteq> []"
  by (cases m) auto

lemma default_error_nonempty: "str ''An error occurred'' \<noteq> []"
  by (simp add: str_def)

lemma prefix_results_includes:
  assumes "prefix (str ''## Results\<newline>'') F"
  shows "str_includes F (str ''## '')"
proof -
  from assms obtain r where "F = str ''## Results\<newline>'' @ r"
    by (auto simp: prefix_def)
  then have "F = [] @ str ''## '' @ (str ''Results\<newline>'' @ r)"
    by (simp add: str_def)
  then have "sublist (str ''## '') F"
    unfolding sublist_def by blast
  then show ?thesis
    by (simp add: str_includes_iff_sublist)
qed

lemma format_March_1: "format_MMMM_d_yyyy \<lparr>year = 2025, month = March, day = 1\<rparr> = str ''March 1, 2025''"
  by (simp add: format_MMMM_d_yyyy_def yyyy_def decimal.simps)

lemma format_March_5: "format_MMMM_d_yyyy \<lparr>year = 2025, month = March, day = 5\<rparr> = str ''March 5, 2025''"
  by (simp add: format_MMMM_d_yyyy_def yyyy_def decimal.simps)

lemma format_June_10: "format_MMMM_d_yyyy \<lparr>year = 2025, month = June, day = 10\<rparr> = str ''June 10, 2025''"
  by (simp add: format_MMMM_d_yyyy_def yyyy_def decimal.simps)

lemma dateRangeText_berlin: "dateRangeText berlin_form = str ''from March 1, 2025 to March 5, 2025''"
  by (simp add: dateRangeText_def dateRange_from_def dateRange_to_def berlin_form_def
      format_MMMM_d_yyyy_def yyyy_def decimal.simps str_def)

lemma connected_idle_open: "isConnected connected_idle \<and> \<not> isLoading connected_idle"
  by (simp add: connected_idle_def initial_UIState_def)

section \<open>The stream classifier\<close>

text \<open>
  C1. A fragment that contains \<open>**Event Name**:\<close> or \<open>## \<close> is accepted and becomes the
  displayed result, whatever its length and whatever noise markers it contains. The
  fragment \<open>Tool Calls: **Event Name**: Foo\<close> is noise by the marker test and is accepted
  nevertheless.
\<close>

theorem escape_marker_accepted:
  "(\<forall>F s. str_includes F (str ''**Event Name**:'') \<or> str_includes F (str ''## '') \<longrightarrow>
      isFinalResponse F \<and> onmessage s (stream_frame F) = Inr (s\<lparr>result := F\<rparr>)) \<and>
   (\<forall>s. isToolCallContent (str ''Tool Calls: **Event Name**: Foo'') \<and>
      isFinalResponse (str ''Tool Calls: **Event Name**: Foo'') \<and>
      onmessage s (stream_frame (str ''Tool Calls: **Event Name**: Foo'')) =
        Inr (s\<lparr>result := str ''Tool Calls: **Event Name**: Foo''\<rparr>))"
proof -
  have acc: "isFinalResponse F \<and> onmessage s (stream_frame F) = Inr (s\<lparr>result := F\<rparr>)"
    if "str_includes F (str ''**Event Name**:'') \<or> str_includes F (str ''## '')"
    for F and s :: UIState
    using that by (auto simp: isFinalResponse_def onmessage_stream)
  have ev: "str_includes (str ''Tool Calls: **Event Name**: Foo'') (str ''**Event Name**:'')"
    by (simp add: str_def)
  have tc: "isToolCallContent (str ''Tool Calls: **Event Name**: Foo'')"
    by (simp add: isToolCallContent_def str_def)
  from acc ev tc show ?thesis by blast
qed

theorem escape_marker_accepted_witness:
  "str_includes (str ''## Results'') (str ''## '') \<and>
   \<not> length (str ''## Results'') > 100 \<and>
   isFinalResponse (str ''## Results'') \<and>
   onmessage initial_UIState (stream_frame (str ''## Results'')) =
     Inr (initial_UIState\<lparr>result := str ''## Results''\<rparr>)"
proof -
  have h: "str_includes (str ''## Results'') (str ''## '')"
    by (simp add: str_def)
  from escape_marker_accepted h
  have "isFinalResponse (str ''## Results'') \<and>
        onmessage initial_UIState (stream_frame (str ''## Results'')) =
          Inr (initial_UIState\<lparr>result := str ''## Results''\<rparr>)"
    by blast
  with h show ?thesis by (simp add: length_str)
qed

text \<open>
  C2. A fragment of more than 100 code units that contains none of the five noise markers
  is accepted, and the displayed result becomes the fragment itself: the result before it
  is replaced, nothing of it is kept.
\<close>

theorem long_clean_fragment_accepted:
  "length F > 100 \<Longrightarrow>
   \<not> str_includes F (str ''Tool Calls:'') \<Longrightarrow>
   \<not> str_includes F (str ''call_'') \<Longrightarrow>
   \<not> str_includes F (str ''==='') \<Longrightarrow>
   \<not> str_includes F (str ''Agent'') \<Longrightarrow>
   \<not> str_includes F (str ''Running'') \<Longrightarrow>
   isFinalResponse F \<and>
   onmessage s (stream_frame F) = Inr (s\<lparr>result := F\<rparr>) \<and>
   result (deliver s (stream_frame F)) = F"
  by (simp add: isFinalResponse_def isToolCallContent_def onmessage_stream deliver_def)

theorem long_clean_fragment_accepted_witness:
  "length long_clean_fragment > 100 \<and>
   \<not> isToolCallContent long_clean_fragment \<and>
   isFinalResponse long_clean_fragment \<and>
   result (deliver (initial_UIState\<lparr>result := str ''## Earlier answer''\<rparr>)
             (stream_frame long_clean_fragment)) = long_clean_fragment"
proof -
  have len: "length long_clean_fragment > 100"
    by (simp add: long_clean_fragment_def str_def)
  have m1: "\<not> str_includes long_clean_fragment (str ''Tool Calls:'')"
    by (simp add: long_clean_fragment_def str_def)
  have m2: "\<not> str_includes long_clean_fragment (str ''call_'')"
    by (simp add: long_clean_fragment_def str_def)
  have m3: "\<not> str_includes long_clean_fragment (str ''==='')"
    by (simp add: long_clean_fragment_def str_def)
  have m4: "\<not> str_includes long_clean_fragment (str ''Agent'')"
    by (simp add: long_clean_fragment_def str_def)
  have m5: "\<not> str_includes long_clean_fragment (str ''Running'')"
    by (simp add: long_clean_fragment_def str_def)
  from long_clean_fragment_accepted [OF len m1 m2 m3 m4 m5] len m1 m2 m3 m4 m5
  show ?thesis by (simp add: isToolCallContent_def)
qed

text \<open>
  C3. A fragment of at most 100 code units that contains neither \<open>**Event Name**:\<close> nor
  \<open>## \<close> is discarded: the handler writes nothing, so the displayed result and the rest
  of the state stay as they were, with or without noise markers in the fragment.
\<close>

theorem short_plain_fragment_discarded:
  "length F \<le> 100 \<Longrightarrow>
   \<not> str_includes F (str ''**Event Name**:'') \<Longrightarrow>
   \<not> str_includes F (str ''## '') \<Longrightarrow>
   \<not> isFinalResponse F \<and>
   onmessage s (stream_frame F) = Inr s \<and>
   result (deliver s (stream_frame F)) = result s"
  by (simp add: isFinalResponse_def onmessage_stream deliver_def)

theorem short_plain_fragment_discarded_witness:
  "length (str ''Found 3 events.'') \<le> 100 \<and>
   \<not> str_includes (str ''Found 3 events.'') (str ''**Event Name**:'') \<and>
   \<not> str_includes (str ''Found 3 events.'') (str ''## '') \<and>
   \<not> isToolCallContent (str ''Found 3 events.'') \<and>
   \<not> isFinalResponse (str ''Found 3 events.'') \<and>
   onmessage (initial_UIState\<lparr>result := str ''## Earlier answer''\<rparr>)
     (stream_frame (str ''Found 3 events.'')) =
     Inr (initial_UIState\<lparr>result := str ''## Earlier answer''\<rparr>)"
proof -
  have len: "length (str ''Found 3 events.'') \<le> 100"
    by (simp add: str_def)
  have e1: "\<not> str_includes (str ''Found 3 events.'') (str ''**Event Name**:'')"
    by (simp add: str_def)
  have e2: "\<not> str_includes (str ''Found 3 events.'') (str ''## '')"
    by (simp add: str_def)
  have tc: "\<not> isToolCallContent (str ''Found 3 events.'')"
    by (simp add: isToolCallContent_def str_def)
  from short_plain_fragment_discarded [OF len e1 e2] len e1 e2 tc
  show ?thesis by simp
qed

section \<open>The query composer\<close>

text \<open>
  C4. On an open, idle channel the form with location Berlin, vertical Fintech, the range
  from 2025-03-01 to 2025-03-05, companies Stripe and additional information \<open>CFP open\<close>
  sends exactly the query of the spec. For every form, the clause on companies and the
  clause on additional requirements is appended exactly when its field is not empty.
\<close>

theorem query_composer_berlin:
  "(\<forall>s. isConnected s \<and> \<not> isLoading s \<longrightarrow>
      handleSubmit s berlin_form =
        Some \<lparr>query = str ''Find Fintech events in Berlin from March 1, 2025 to March 5, 2025. Focus on events where these companies might be involved: Stripe. Additional requirements: CFP open''\<rparr>) \<and>
   (\<forall>s fd. isConnected s \<and> \<not> isLoading s \<longrightarrow>
      handleSubmit s fd =
        Some \<lparr>query =
          str ''Find '' @ vertical fd @ str '' events in '' @ location fd @
          str '' '' @ dateRangeText fd @ str ''.'' @
          (if companies fd = [] then []
           else str '' Focus on events where these companies might be involved: '' @
                companies fd @ str ''.'') @
          (if additionalInfo fd = [] then []
           else str '' Additional requirements: '' @ additionalInfo fd)\<rparr>)"
proof -
  have general: "handleSubmit s fd =
        Some \<lparr>query =
          str ''Find '' @ vertical fd @ str '' events in '' @ location fd @
          str '' '' @ dateRangeText fd @ str ''.'' @
          (if companies fd = [] then []
           else str '' Focus on events where these companies might be involved: '' @
                companies fd @ str ''.'') @
          (if additionalInfo fd = [] then []
           else str '' Additional requirements: '' @ additionalInfo fd)\<rparr>"
    if "isConnected s \<and> \<not> isLoading s" for s fd
    using that by (simp add: handleSubmit_def str_Nil)
  have berlin: "handleSubmit s berlin_form =
        Some \<lparr>query = str ''Find Fintech events in Berlin from March 1, 2025 to March 5, 2025. Focus on events where these companies might be involved: Stripe. Additional requirements: CFP open''\<rparr>"
    if "isConnected s \<and> \<not> isLoading s" for s
    unfolding general [OF that] dateRangeText_berlin
    by (simp add: berlin_form_def str_def)
  from general berlin show ?thesis by blast
qed

theorem query_composer_berlin_witness:
  "isConnected connected_idle \<and> \<not> isLoading connected_idle \<and>
   handleSubmit connected_idle berlin_form =
     Some \<lparr>query = str ''Find Fintech events in Berlin from March 1, 2025 to March 5, 2025. Focus on events where these companies might be involved: Stripe. Additional requirements: CFP open''\<rparr> \<and>
   handleSubmit connected_idle (berlin_form\<lparr>companies := str '''', additionalInfo := str ''''\<rparr>) =
     Some \<lparr>query = str ''Find Fintech events in Berlin from March 1, 2025 to March 5, 2025.''\<rparr>"
proof -
  note h = connected_idle_open
  from query_composer_berlin h
  have a: "handleSubmit connected_idle berlin_form =
     Some \<lparr>query = str ''Find Fintech events in Berlin from March 1, 2025 to March 5, 2025. Focus on events where these companies might be involved: Stripe. Additional requirements: CFP open''\<rparr>"
    by blast
  from query_composer_berlin h
  have "handleSubmit connected_idle (berlin_form\<lparr>companies := str '''', additionalInfo := str ''''\<rparr>) =
     Some \<lparr>query =
          str ''Find '' @ vertical (berlin_form\<lparr>companies := str '''', additionalInfo := str ''''\<rparr>) @
          str '' events in '' @ location (berlin_form\<lparr>companies := str '''', additionalInfo := str ''''\<rparr>) @
          str '' '' @ dateRangeText (berlin_form\<lparr>companies := str '''', additionalInfo := str ''''\<rparr>) @ str ''.'' @
          (if companies (berlin_form\<lparr>companies := str '''', additionalInfo := str ''''\<rparr>) = [] then []
           else str '' Focus on events where these companies might be involved: '' @
                companies (berlin_form\<lparr>companies := str '''', additionalInfo := str ''''\<rparr>) @ str ''.'') @
          (if additionalInfo (berlin_form\<lparr>companies := str '''', additionalInfo := str ''''\<rparr>) = [] then []
           else str '' Additional requirements: '' @
                additionalInfo (berlin_form\<lparr>companies := str '''', additionalInfo := str ''''\<rparr>))\<rparr>"
    by blast
  moreover have "dateRangeText (berlin_form\<lparr>companies := str '''', additionalInfo := str ''''\<rparr>) =
      dateRangeText berlin_form"
    by (simp add: dateRangeText_def dateRange_from_def dateRange_to_def)
  ultimately
  have b: "handleSubmit connected_idle (berlin_form\<lparr>companies := str '''', additionalInfo := str ''''\<rparr>) =
     Some \<lparr>query = str ''Find Fintech events in Berlin from March 1, 2025 to March 5, 2025.''\<rparr>"
    by (simp add: dateRangeText_berlin str_Nil) (simp add: berlin_form_def str_def)
  from h a b show ?thesis by simp
qed

text \<open>
  C5. The date clause has three cases: with both dates it is \<open>from {from} to {to}\<close>, with
  the first date only it is \<open>starting from {from}\<close>, and in every other case it is
  \<open>upcoming\<close>. A date is rendered as month name, day, comma and year: 2025-06-10 as
  \<open>June 10, 2025\<close>. With that first date only and with empty companies and additional
  information, the query ends at the full stop after the date clause.
\<close>

theorem date_clause_cases:
  "(\<forall>fd r a b. dateRange fd = Some r \<and> from r = Some a \<and> to r = Some b \<longrightarrow>
      dateRangeText fd =
        str ''from '' @ format_MMMM_d_yyyy a @ str '' to '' @ format_MMMM_d_yyyy b) \<and>
   (\<forall>fd r a. dateRange fd = Some r \<and> from r = Some a \<and> to r = None \<longrightarrow>
      dateRangeText fd = str ''starting from '' @ format_MMMM_d_yyyy a) \<and>
   (\<forall>fd. dateRange fd = None \<or> (\<exists>r. dateRange fd = Some r \<and> from r = None) \<longrightarrow>
      dateRangeText fd = str ''upcoming'') \<and>
   (\<forall>d. format_MMMM_d_yyyy d =
      str (MMMM (month d)) @ str '' '' @ str (decimal (day d)) @ str '', '' @ str (yyyy (year d))) \<and>
   format_MMMM_d_yyyy \<lparr>year = 2025, month = June, day = 10\<rparr> = str ''June 10, 2025'' \<and>
   (\<forall>s L V. isConnected s \<and> \<not> isLoading s \<longrightarrow>
      handleSubmit s
        \<lparr>location = L,
         dateRange = Some \<lparr>from = Some \<lparr>year = 2025, month = June, day = 10\<rparr>, to = None\<rparr>,
         vertical = V, companies = str '''', additionalInfo = str ''''\<rparr> =
      Some \<lparr>query = str ''Find '' @ V @ str '' events in '' @ L @
                    str '' starting from June 10, 2025.''\<rparr>)"
proof -
  have both: "dateRangeText fd =
        str ''from '' @ format_MMMM_d_yyyy a @ str '' to '' @ format_MMMM_d_yyyy b"
    if "dateRange fd = Some r \<and> from r = Some a \<and> to r = Some b" for fd r a b
    using that by (simp add: dateRangeText_def dateRange_from_def dateRange_to_def)
  have only_from: "dateRangeText fd = str ''starting from '' @ format_MMMM_d_yyyy a"
    if "dateRange fd = Some r \<and> from r = Some a \<and> to r = None" for fd r a
    using that by (simp add: dateRangeText_def dateRange_from_def dateRange_to_def)
  have neither: "dateRangeText fd = str ''upcoming''"
    if "dateRange fd = None \<or> (\<exists>r. dateRange fd = Some r \<and> from r = None)" for fd
    using that by (auto simp: dateRangeText_def dateRange_from_def dateRange_to_def)
  have shape: "format_MMMM_d_yyyy d =
      str (MMMM (month d)) @ str '' '' @ str (decimal (day d)) @ str '', '' @ str (yyyy (year d))"
    for d
    by (simp add: format_MMMM_d_yyyy_def str_def)
  have june: "handleSubmit s
        \<lparr>location = L,
         dateRange = Some \<lparr>from = Some \<lparr>year = 2025, month = June, day = 10\<rparr>, to = None\<rparr>,
         vertical = V, companies = str '''', additionalInfo = str ''''\<rparr> =
      Some \<lparr>query = str ''Find '' @ V @ str '' events in '' @ L @
                    str '' starting from June 10, 2025.''\<rparr>"
    if "isConnected s \<and> \<not> isLoading s" for s L V
    using that
    by (simp add: handleSubmit_def dateRangeText_def dateRange_from_def dateRange_to_def
        format_June_10 str_Nil) (simp add: str_def)
  from both only_from neither shape format_June_10 june show ?thesis by blast
qed

theorem date_clause_cases_witness:
  "dateRangeText berlin_form =
     str ''from '' @ str ''March 1, 2025'' @ str '' to '' @ str ''March 5, 2025'' \<and>
   dateRangeText june_form = str ''starting from '' @ str ''June 10, 2025'' \<and>
   dateRangeText (june_form\<lparr>dateRange := None\<rparr>) = str ''upcoming'' \<and>
   dateRangeText
     (june_form\<lparr>dateRange :=
        Some \<lparr>from = None, to = Some \<lparr>year = 2025, month = June, day = 10\<rparr>\<rparr>\<rparr>) =
     str ''upcoming'' \<and>
   isConnected connected_idle \<and> \<not> isLoading connected_idle \<and>
   handleSubmit connected_idle june_form =
     Some \<lparr>query = str ''Find EdTech events in Lisbon starting from June 10, 2025.''\<rparr>"
proof -
  let ?mar1 = "\<lparr>year = 2025, month = March, day = 1\<rparr>"
  let ?mar5 = "\<lparr>year = 2025, month = March, day = 5\<rparr>"
  let ?jun10 = "\<lparr>year = 2025, month = June, day = 10\<rparr>"
  have h1: "dateRange berlin_form = Some \<lparr>from = Some ?mar1, to = Some ?mar5\<rparr> \<and>
      from \<lparr>from = Some ?mar1, to = Some ?mar5\<rparr> = Some ?mar1 \<and>
      to \<lparr>from = Some ?mar1, to = Some ?mar5\<rparr> = Some ?mar5"
    by (simp add: berlin_form_def)
  have h2: "dateRange june_form = Some \<lparr>from = Some ?jun10, to = None\<rparr> \<and>
      from \<lparr>from = Some ?jun10, to = None\<rparr> = Some ?jun10 \<and>
      to \<lparr>from = Some ?jun10, to = None\<rparr> = None"
    by (simp add: june_form_def)
  have h3: "dateRange (june_form\<lparr>dateRange := None\<rparr>) = None \<or>
      (\<exists>r. dateRange (june_form\<lparr>dateRange := None\<rparr>) = Some r \<and> from r = None)"
    by simp
  have h4: "dateRange (june_form\<lparr>dateRange := Some \<lparr>from = None, to = Some ?jun10\<rparr>\<rparr>) = None \<or>
      (\<exists>r. dateRange (june_form\<lparr>dateRange := Some \<lparr>from = None, to = Some ?jun10\<rparr>\<rparr>) = Some r \<and>
           from r = None)"
    by simp
  note h5 = connected_idle_open
  have form: "june_form =
      \<lparr>location = str ''Lisbon'', dateRange = Some \<lparr>from = Some ?jun10, to = None\<rparr>,
       vertical = str ''EdTech'', companies = str '''', additionalInfo = str ''''\<rparr>"
    by (simp add: june_form_def)
  from date_clause_cases h1
  have c1: "dateRangeText berlin_form =
      str ''from '' @ format_MMMM_d_yyyy ?mar1 @ str '' to '' @ format_MMMM_d_yyyy ?mar5"
    by blast
  from date_clause_cases h2
  have c2: "dateRangeText june_form = str ''starting from '' @ format_MMMM_d_yyyy ?jun10"
    by blast
  from date_clause_cases h3
  have c3: "dateRangeText (june_form\<lparr>dateRange := None\<rparr>) = str ''upcoming''"
    by blast
  from date_clause_cases h4
  have c4: "dateRangeText (june_form\<lparr>dateRange := Some \<lparr>from = None, to = Some ?jun10\<rparr>\<rparr>) =
      str ''upcoming''"
    by blast
  from date_clause_cases h5
  have "handleSubmit connected_idle
      \<lparr>location = str ''Lisbon'', dateRange = Some \<lparr>from = Some ?jun10, to = None\<rparr>,
       vertical = str ''EdTech'', companies = str '''', additionalInfo = str ''''\<rparr> =
      Some \<lparr>query = str ''Find '' @ str ''EdTech'' @ str '' events in '' @ str ''Lisbon'' @
                    str '' starting from June 10, 2025.''\<rparr>"
    by blast
  then have c5: "handleSubmit connected_idle june_form =
      Some \<lparr>query = str ''Find EdTech events in Lisbon starting from June 10, 2025.''\<rparr>"
    by (simp add: form str_append [symmetric])
  from c1 c2 c3 c4 h5 c5 show ?thesis
    by (simp only: format_March_1 format_March_5 format_June_10 simp_thms)
qed

section \<open>The message handler on the frames of a response cycle\<close>

text \<open>
  C6, as the code has it. An \<open>error\<close> frame sets \<open>isLoading\<close> to false and leaves the
  displayed result as it was. The error string becomes the frame's \<open>message\<close> when the
  frame has one that is not empty, and \<open>An error occurred\<close> when the frame has no
  \<open>message\<close> or an empty one; it is never empty.
\<close>

theorem error_frame_effect:
  "onmessage s (error_frame m) = Inr (deliver s (error_frame m)) \<and>
   \<not> isLoading (deliver s (error_frame m)) \<and>
   result (deliver s (error_frame m)) = result s \<and>
   (\<forall>t. m = Some t \<and> t \<noteq> [] \<longrightarrow> error (deliver s (error_frame m)) = t) \<and>
   (m = None \<or> m = Some [] \<longrightarrow>
      error (deliver s (error_frame m)) = str ''An error occurred'') \<and>
   error (deliver s (error_frame m)) \<noteq> []"
proof -
  have d: "deliver s (error_frame m) =
      s\<lparr>isLoading := False, error := or_else m (str ''An error occurred'')\<rparr>"
    by (simp add: deliver_def onmessage_error)
  have "or_else m (str ''An error occurred'') \<noteq> []"
    by (rule or_else_nonempty [OF default_error_nonempty])
  with d show ?thesis
    by (auto simp: onmessage_error)
qed

theorem error_frame_effect_witness:
  "str ''Rate limit exceeded'' \<noteq> [] \<and>
   error (deliver loading_with_result (error_frame (Some (str ''Rate limit exceeded'')))) =
     str ''Rate limit exceeded'' \<and>
   error (deliver loading_with_result (error_frame None)) = str ''An error occurred'' \<and>
   result (deliver loading_with_result (error_frame None)) = str ''## Results'' \<and>
   \<not> isLoading (deliver loading_with_result (error_frame None))"
proof -
  have ne: "str ''Rate limit exceeded'' \<noteq> []"
    by (simp add: str_def)
  from error_frame_effect [of loading_with_result "Some (str ''Rate limit exceeded'')"] ne
  have a: "error (deliver loading_with_result (error_frame (Some (str ''Rate limit exceeded'')))) =
     str ''Rate limit exceeded''"
    by blast
  from error_frame_effect [of loading_with_result None]
  have b: "error (deliver loading_with_result (error_frame None)) = str ''An error occurred'' \<and>
     result (deliver loading_with_result (error_frame None)) = result loading_with_result \<and>
     \<not> isLoading (deliver loading_with_result (error_frame None))"
    by blast
  from ne a b show ?thesis
    by (simp add: loading_with_result_def)
qed

text \<open>
  C6 as the spec words it fails on a frame whose \<open>message\<close> is the empty string: the
  message is provided, and the error string is not set to it.
\<close>

theorem error_frame_empty_message_counterexample:
  "message (error_frame (Some (str ''''))) = Some (str '''') \<and>
   error (deliver initial_UIState (error_frame (Some (str '''')))) \<noteq> str ''''"
proof -
  have "deliver initial_UIState (error_frame (Some (str ''''))) =
      initial_UIState\<lparr>isLoading := False, error := str ''An error occurred''\<rparr>"
    by (simp add: deliver_def onmessage_error str_Nil)
  then show ?thesis
    by (simp add: error_frame_def str_def)
qed

text \<open>
  C7. The frames \<open>start\<close>, \<open>stream\<close> with a fragment of 50 code units that opens with
  \<open>Tool Calls: \<close>, \<open>stream\<close> with a fragment of 150 code units that opens with
  \<open>## Results\<close> and a line break, and \<open>complete\<close>, delivered in this order to the initial
  state, end with the second fragment as the result and with \<open>isLoading\<close> false. The end
  state is the one that the same frames without the first fragment lead to.
\<close>

theorem tool_call_then_results:
  "prefix (str ''Tool Calls: '') F1 \<Longrightarrow> length F1 = 50 \<Longrightarrow>
   prefix (str ''## Results\<newline>'') F2 \<Longrightarrow> length F2 = 150 \<Longrightarrow>
   result (deliver_all initial_UIState
             [start_frame, stream_frame F1, stream_frame F2, complete_frame]) = F2 \<and>
   \<not> isLoading (deliver_all initial_UIState
             [start_frame, stream_frame F1, stream_frame F2, complete_frame]) \<and>
   deliver_all initial_UIState [start_frame, stream_frame F1, stream_frame F2, complete_frame] =
     deliver_all initial_UIState [start_frame, stream_frame F2, complete_frame]"
  by (simp add: deliver_all_def deliver_def onmessage_start onmessage_stream onmessage_complete
      prefix_results_includes isFinalResponse_def)

theorem tool_call_then_results_witness:
  "prefix (str ''Tool Calls: '') tool_call_fragment \<and> length tool_call_fragment = 50 \<and>
   prefix (str ''## Results\<newline>'') results_fragment \<and> length results_fragment = 150 \<and>
   \<not> isFinalResponse tool_call_fragment \<and>
   result (deliver_all initial_UIState
             [start_frame, stream_frame tool_call_fragment, stream_frame results_fragment,
              complete_frame]) = results_fragment \<and>
   \<not> isLoading (deliver_all initial_UIState
             [start_frame, stream_frame tool_call_fragment, stream_frame results_fragment,
              complete_frame])"
proof -
  have p1: "prefix (str ''Tool Calls: '') tool_call_fragment"
    by (simp add: tool_call_fragment_def)
  have l1: "length tool_call_fragment = 50"
    by (simp add: tool_call_fragment_def str_def)
  have p2: "prefix (str ''## Results\<newline>'') results_fragment"
    by (simp add: results_fragment_def)
  have l2: "length results_fragment = 150"
    by (simp add: results_fragment_def str_def)
  have e1: "\<not> str_includes tool_call_fragment (str ''**Event Name**:'')"
    by code_simp
  have e2: "\<not> str_includes tool_call_fragment (str ''## '')"
    by code_simp
  from e1 e2 l1 have nf: "\<not> isFinalResponse tool_call_fragment"
    by (simp add: isFinalResponse_def)
  from tool_call_then_results [OF p1 l1 p2 l2] p1 l1 p2 l2 nf
  show ?thesis by blast
qed

text \<open>
  C8, as the code has it. A \<open>start\<close> frame sets the result to the empty string and
  \<open>isLoading\<close> to true; the error string and \<open>isConnected\<close> stay as they were.
\<close>

theorem start_frame_effect:
  "onmessage s start_frame = Inr (deliver s start_frame) \<and>
   result (deliver s start_frame) = str '''' \<and>
   isLoading (deliver s start_frame) \<and>
   error (deliver s start_frame) = error s \<and>
   isConnected (deliver s start_frame) = isConnected s"
  by (simp add: deliver_def onmessage_start str_Nil)

text \<open>
  C8 as the spec words it fails after an error: the error string of a cycle that ended
  with an \<open>error\<close> frame is still there when the next \<open>start\<close> has been handled.
\<close>

theorem start_keeps_error_counterexample:
  "error (deliver (deliver initial_UIState (error_frame None)) start_frame) =
     str ''An error occurred'' \<and>
   error (deliver (deliver initial_UIState (error_frame None)) start_frame) \<noteq> str ''''"
  by (simp add: deliver_def onmessage_start onmessage_error) (simp add: str_def)

section \<open>The submission guard\<close>

text \<open>
  C9. While the channel is not connected or a response is loading, a submission sends
  nothing: the handler returns at its guard, whatever the form holds.
\<close>

theorem submission_gated:
  "\<not> isConnected s \<or> isLoading s \<Longrightarrow> handleSubmit s fd = None"
  by (simp add: handleSubmit_def)

theorem submission_gated_witness:
  "\<not> isConnected initial_UIState \<and>
   handleSubmit initial_UIState berlin_form = None \<and>
   isLoading loading_with_result \<and>
   handleSubmit loading_with_result berlin_form = None"
proof -
  have h1: "\<not> isConnected initial_UIState"
    by (simp add: initial_UIState_def)
  have h2: "isLoading loading_with_result"
    by (simp add: loading_with_result_def)
  from h1 have g1: "\<not> isConnected initial_UIState \<or> isLoading initial_UIState" ..
  from h2 have g2: "\<not> isConnected loading_with_result \<or> isLoading loading_with_result" ..
  from submission_gated [OF g1, of berlin_form] submission_gated [OF g2, of berlin_form] h1 h2
  show ?thesis by blast
qed

section \<open>The empty error message\<close>

text \<open>
  C10. An \<open>error\<close> frame whose \<open>message\<close> is the empty string sets the error string to
  \<open>An error occurred\<close>, exactly as a frame without \<open>message\<close> does.
\<close>

theorem empty_message_is_default:
  "onmessage s (error_frame (Some (str ''''))) =
     Inr (s\<lparr>isLoading := False, error := str ''An error occurred''\<rparr>) \<and>
   onmessage s (error_frame (Some (str ''''))) = onmessage s (error_frame None) \<and>
   error (deliver s (error_frame (Some (str '''')))) = str ''An error occurred'' \<and>
   error (deliver s (error_frame (Some (str '''')))) \<noteq> str ''''"
  by (simp add: deliver_def onmessage_error str_Nil) (simp add: str_def)

end
